theory Spec2Isabelle
  imports Main
begin

section \<open>The MySQL INSERT row-limit advisor\<close>

text \<open>
  A shallow embedding of \<^verbatim>\<open>plugin/advisor/mysql/advisor_insert_row_limit.go\<close>:
  \<^verbatim>\<open>InsertRowLimitAdvisor.Check\<close>, the visitor \<^verbatim>\<open>insertRowLimitChecker\<close>
  (\<^verbatim>\<open>Enter\<close>, \<^verbatim>\<open>Leave\<close>) and \<^verbatim>\<open>getInsertRows\<close>.

  Go's \<^verbatim>\<open>int\<close> and \<^verbatim>\<open>int64\<close> are modelled as \<open>int\<close>: the advisor only compares and
  converts these numbers, it never does arithmetic on them, and the one place where the
  64-bit range decides the result (\<^verbatim>\<open>strconv.ParseInt\<close>) has the range check written
  out. A Go \<^verbatim>\<open>error\<close> is modelled by its message, and a Go result pair
  \<^verbatim>\<open>(value, error)\<close> by a sum with the error on the left.
\<close>

subsection \<open>Advice\<close>

datatype status = Success | Warn | Error

text \<open>
  The advice codes the advisor and the parser adapter use. Their integer values are declared
  outside the examined sources; only their being different codes is used.
\<close>

datatype code = Ok | Internal | Syntax | InsertTooManyRows

record advice =
  Status :: status
  Code :: code
  Title :: string
  Content :: string
  Line :: int

type_synonym error = string

subsection \<open>The rule and the invocation context\<close>

datatype rule_level = LevelDisabled | LevelInfo | LevelWarning | LevelError

record rule =
  Type :: string
  Level :: rule_level
  Payload :: string

text \<open>
  The invocation context. \<open>Driver\<close> is the optional live database handle
  (\<open>None\<close> is Go's \<^verbatim>\<open>nil\<close>), \<open>Context\<close> the cancellation scope.
\<close>

record ('d, 'c) advisor_context =
  Rule :: rule
  Charset :: string
  Collation :: string
  Driver :: "'d option"
  Context :: 'c

record NumberTypeRulePayload =
  Number :: int

subsection \<open>Statement trees and their traversal\<close>

text \<open>
  The syntax trees come from the SQL parser library. A node is either an \<^verbatim>\<open>*ast.InsertStmt\<close>,
  with the fields the checker reads (\<open>Lists\<close>, \<open>Select\<close>) and the children its
  \<^verbatim>\<open>Accept\<close> visits, or any other node with its children. Every node carries its
  source text and the line its text starts at.
\<close>

datatype node =
    is_InsertStmt: InsertStmt
      (Text: string) (OriginTextPosition: int)
      (Select: "node option") (Table: node) (Columns: "node list")
      (Lists: "node list list") (Setlist: "node list") (OnDuplicate: "node list")
  | OtherNode
      (Text: string) (OriginTextPosition: int) (Children: "node list")

text \<open>
  The library's visitor protocol: \<^verbatim>\<open>n.Accept(v)\<close> calls \<^verbatim>\<open>v.Enter(n)\<close>, which
  returns \<^verbatim>\<open>skipChildren\<close>; when that is true the children are skipped and
  \<^verbatim>\<open>v.Leave\<close> is called at once, otherwise each child accepts the visitor in turn, the
  traversal stopping as soon as a child returns \<^verbatim>\<open>ok = false\<close>, and \<^verbatim>\<open>v.Leave(n)\<close>
  gives the result. An \<^verbatim>\<open>InsertStmt\<close> visits \<open>Select\<close> (when not nil), \<open>Table\<close>,
  \<open>Columns\<close>, every expression of \<open>Lists\<close>, \<open>Setlist\<close> and \<open>OnDuplicate\<close>, in
  this order. The visitor is given by its two methods, acting on a state \<open>'s\<close>; the
  node a method returns is left out, since the checker always returns the node it was given.
\<close>

fun Accept :: "(node \<Rightarrow> 's \<Rightarrow> 's \<times> bool) \<Rightarrow> (node \<Rightarrow> 's \<Rightarrow> 's \<times> bool) \<Rightarrow> node \<Rightarrow> 's \<Rightarrow> 's \<times> bool"
  and AcceptList :: "(node \<Rightarrow> 's \<Rightarrow> 's \<times> bool) \<Rightarrow> (node \<Rightarrow> 's \<Rightarrow> 's \<times> bool) \<Rightarrow> node list \<Rightarrow> 's \<Rightarrow> 's \<times> bool"
  and AcceptLists :: "(node \<Rightarrow> 's \<Rightarrow> 's \<times> bool) \<Rightarrow> (node \<Rightarrow> 's \<Rightarrow> 's \<times> bool) \<Rightarrow> node list list \<Rightarrow> 's \<Rightarrow> 's \<times> bool"
where
  "Accept enter leave (OtherNode t p cs) s =
     (case enter (OtherNode t p cs) s of
        (s1, True) \<Rightarrow> leave (OtherNode t p cs) s1
      | (s1, False) \<Rightarrow>
          (case AcceptList enter leave cs s1 of
             (s2, False) \<Rightarrow> (s2, False)
           | (s2, True) \<Rightarrow> leave (OtherNode t p cs) s2))"
| "Accept enter leave (InsertStmt t p sel tbl cols vals setl dup) s =
     (case enter (InsertStmt t p sel tbl cols vals setl dup) s of
        (s1, True) \<Rightarrow> leave (InsertStmt t p sel tbl cols vals setl dup) s1
      | (s1, False) \<Rightarrow>
          (case (case sel of None \<Rightarrow> (s1, True) | Some q \<Rightarrow> Accept enter leave q s1) of
             (s2, False) \<Rightarrow> (s2, False)
           | (s2, True) \<Rightarrow>
          (case Accept enter leave tbl s2 of
             (s3, False) \<Rightarrow> (s3, False)
           | (s3, True) \<Rightarrow>
          (case AcceptList enter leave cols s3 of
             (s4, False) \<Rightarrow> (s4, False)
           | (s4, True) \<Rightarrow>
          (case AcceptLists enter leave vals s4 of
             (s5, False) \<Rightarrow> (s5, False)
           | (s5, True) \<Rightarrow>
          (case AcceptList enter leave setl s5 of
             (s6, False) \<Rightarrow> (s6, False)
           | (s6, True) \<Rightarrow>
          (case AcceptList enter leave dup s6 of
             (s7, False) \<Rightarrow> (s7, False)
           | (s7, True) \<Rightarrow> leave (InsertStmt t p sel tbl cols vals setl dup) s7)))))))"
| "AcceptList enter leave [] s = (s, True)"
| "AcceptList enter leave (c # cs) s =
     (case Accept enter leave c s of
        (s1, False) \<Rightarrow> (s1, False)
      | (s1, True) \<Rightarrow> AcceptList enter leave cs s1)"
| "AcceptLists enter leave [] s = (s, True)"
| "AcceptLists enter leave (l # ls) s =
     (case AcceptList enter leave l s of
        (s1, False) \<Rightarrow> (s1, False)
      | (s1, True) \<Rightarrow> AcceptLists enter leave ls s1)"

subsection \<open>Formatting and number parsing\<close>

text \<open>The verb \<^verbatim>\<open>%d\<close> of \<^verbatim>\<open>fmt.Sprintf\<close>: a decimal numeral, with a minus sign when negative.\<close>

fun nat_dec :: "nat \<Rightarrow> string" where
  "nat_dec n =
     (if n < 10 then [char_of (48 + n)]
      else nat_dec (n div 10) @ [char_of (48 + n mod 10)])"

declare nat_dec.simps [simp del]

definition fmt_d :: "int \<Rightarrow> string" where
  "fmt_d i = (if i < 0 then CHR ''-'' # nat_dec (nat (- i)) else nat_dec (nat i))"

definition dquote :: char where
  "dquote = CHR 0x22"

text \<open>
  \<^verbatim>\<open>strconv.ParseInt(s, 10, 64)\<close> of Go's standard library: an optional sign, then at
  least one decimal digit and nothing else; the value must lie between \<open>- 2 ^ 63\<close> and
  \<open>2 ^ 63 - 1\<close>. \<open>None\<close> stands for a non-nil error (syntax or range).
\<close>

definition digit_of :: "char \<Rightarrow> nat option" where
  "digit_of c =
     (let n = (of_char c :: nat) in if 48 \<le> n \<and> n \<le> 57 then Some (n - 48) else None)"

fun parse_digits :: "string \<Rightarrow> nat \<Rightarrow> nat option" where
  "parse_digits [] acc = Some acc"
| "parse_digits (c # cs) acc =
     (case digit_of c of
        None \<Rightarrow> None
      | Some d \<Rightarrow> parse_digits cs (acc * 10 + d))"

definition ParseInt :: "string \<Rightarrow> int option" where
  "ParseInt s =
     (case s of
        [] \<Rightarrow> None
      | c # cs \<Rightarrow>
          (let neg = (c = CHR ''-'');
               ds = (if c = CHR ''+'' \<or> c = CHR ''-'' then cs else s)
           in if ds = [] then None
              else (case parse_digits ds 0 of
                      None \<Rightarrow> None
                    | Some un \<Rightarrow>
                        if \<not> neg \<and> un \<ge> 2 ^ 63 then None
                        else if neg \<and> un > 2 ^ 63 then None
                        else Some (if neg then - int un else int un))))"

subsection \<open>The result of the diagnostic query\<close>

text \<open>
  A Go \<^verbatim>\<open>interface{}\<close> value, by its dynamic type: \<^verbatim>\<open>nil\<close>, \<^verbatim>\<open>int\<close>, \<^verbatim>\<open>int64\<close>,
  \<^verbatim>\<open>string\<close>, \<^verbatim>\<open>bool\<close>, \<^verbatim>\<open>[]string\<close> and \<^verbatim>\<open>[]interface{}\<close>.
\<close>

datatype iface =
    Nil
  | GoInt int
  | GoInt64 int
  | GoString string
  | GoBool bool
  | StringSlice "string list"
  | Slice "iface list"

text \<open>
  \<^verbatim>\<open>getInsertRows\<close>. Its error messages format a value with the verb \<^verbatim>\<open>%t\<close>; how the
  \<^verbatim>\<open>fmt\<close> package renders that is the parameter \<open>fmtT\<close>.
\<close>

definition getInsertRows :: "(iface \<Rightarrow> string) \<Rightarrow> iface list \<Rightarrow> error + int" where
  "getInsertRows fmtT res =
     (if length res \<noteq> 3 then Inl (''expected 3 but got '' @ fmt_d (int (length res)))
      else
        (case res ! 2 of
           Slice rowList \<Rightarrow>
             if length rowList < 2 then Inl ''not found any data''
             else
               (case rowList ! 1 of
                  Slice rowTwo \<Rightarrow>
                    if length rowTwo \<noteq> 12
                    then Inl (''expected 12 but got '' @ fmt_d (int (length rowTwo)))
                    else
                      (case rowTwo ! 9 of
                         GoInt rows \<Rightarrow> Inr rows
                       | GoInt64 rows \<Rightarrow> Inr rows
                       | GoString rows \<Rightarrow>
                           (case ParseInt rows of
                              None \<Rightarrow>
                                Inl (''expected int or int64 but got string('' @ rows @ '')'')
                            | Some v \<Rightarrow> Inr v)
                       | _ \<Rightarrow> Inl (''expected int or in64 but got '' @ fmtT (rowTwo ! 9)))
                | _ \<Rightarrow> Inl (''expected []interface{} but got '' @ fmtT (rowList ! 0)))
         | _ \<Rightarrow> Inl (''expected []interface{} but got '' @ fmtT (res ! 2))))"

subsection \<open>Collaborators outside the examined sources\<close>

text \<open>
  The advisor calls functions that are declared elsewhere; they are parameters of the model:
  the SQL parser behind the parser adapter, \<^verbatim>\<open>advisor.NewStatusBySQLReviewRuleLevel\<close>,
  \<^verbatim>\<open>advisor.UnmarshalNumberTypeRulePayload\<close>, \<^verbatim>\<open>advisor.Query\<close> and the rendering of
  \<^verbatim>\<open>%t\<close>. \<open>Query\<close> reads the outside world \<open>'w\<close> (the database behind the handle, time,
  cancellation) and may change it, so the world is passed in and returned.
\<close>

record syntax_error =
  ErrTitle :: string
  ErrContent :: string
  ErrLine :: int

record ('d, 'c, 'w) externals =
  parser :: "string \<Rightarrow> string \<Rightarrow> string \<Rightarrow> syntax_error + node list"
  NewStatusBySQLReviewRuleLevel :: "rule_level \<Rightarrow> error + status"
  UnmarshalNumberTypeRulePayload :: "string \<Rightarrow> error + NumberTypeRulePayload"
  Query :: "'c \<Rightarrow> 'd \<Rightarrow> string \<Rightarrow> 'w \<Rightarrow> (error + iface list) \<times> 'w"
  fmt_t :: "iface \<Rightarrow> string"

text \<open>
  Modelled from the spec: \<^verbatim>\<open>parseStatement\<close>, the parser adapter, is not among the
  examined sources. It returns the ordered statements of the script and no Advice, or, on a
  syntax failure, a single Error-status Advice with the Syntax code and a best-effort line
  number. The second component is Go's \<^verbatim>\<open>errAdvice\<close>, \<open>None\<close> for \<^verbatim>\<open>nil\<close>.
\<close>

definition parseStatement ::
  "(string \<Rightarrow> string \<Rightarrow> string \<Rightarrow> syntax_error + node list)
    \<Rightarrow> string \<Rightarrow> string \<Rightarrow> string \<Rightarrow> node list \<times> advice list option" where
  "parseStatement p statement charset collation =
     (case p statement charset collation of
        Inl e \<Rightarrow>
          ([], Some [\<lparr>Status = Error, Code = Syntax, Title = ErrTitle e,
                      Content = ErrContent e, Line = ErrLine e\<rparr>])
      | Inr stmtList \<Rightarrow> (stmtList, None))"

subsection \<open>The checker\<close>

text \<open>The field \<open>text'\<close> is the checker's \<^verbatim>\<open>text\<close>.\<close>

record ('d, 'c) insertRowLimitChecker =
  adviceList :: "advice list"
  level :: status
  title :: string
  text' :: string
  line :: int
  maxRow :: int
  driver :: "'d option"
  ctx :: 'c

text \<open>The three message formats of \<^verbatim>\<open>Enter\<close>.\<close>

definition inserts_rows_content :: "string \<Rightarrow> int \<Rightarrow> int \<Rightarrow> string" where
  "inserts_rows_content t n m =
     [dquote] @ t @ [dquote] @ '' inserts '' @ fmt_d n @ '' rows. The count exceeds ''
       @ fmt_d m @ ''.''"

definition dry_run_failed_content :: "string \<Rightarrow> string \<Rightarrow> string" where
  "dry_run_failed_content t err = [dquote] @ t @ [dquote] @ '' dry runs failed: '' @ err"

definition row_count_failed_content :: "string \<Rightarrow> string \<Rightarrow> string" where
  "row_count_failed_content t err =
     ''failed to get row count for '' @ [dquote] @ t @ [dquote] @ '': '' @ err"

definition append_advice ::
  "('d, 'c) insertRowLimitChecker \<Rightarrow> advice \<Rightarrow> ('d, 'c) insertRowLimitChecker" where
  "append_advice checker a = checker\<lparr>adviceList := adviceList checker @ [a]\<rparr>"

text \<open>
  \<^verbatim>\<open>Enter\<close>: the state is the checker and the outside world; the boolean is
  \<^verbatim>\<open>skipChildren\<close>.
\<close>

fun Enter ::
  "('d, 'c, 'w) externals \<Rightarrow> node \<Rightarrow> ('d, 'c) insertRowLimitChecker \<times> 'w
    \<Rightarrow> (('d, 'c) insertRowLimitChecker \<times> 'w) \<times> bool" where
  "Enter ext n (checker, w) =
     (if is_InsertStmt n then
        (if Select n = None then
           (if int (length (Lists n)) > maxRow checker then
              ((append_advice checker
                  \<lparr>Status = level checker, Code = InsertTooManyRows, Title = title checker,
                   Content = inserts_rows_content (text' checker) (int (length (Lists n)))
                               (maxRow checker),
                   Line = line checker\<rparr>, w), False)
            else ((checker, w), False))
         else
           (case driver checker of
              None \<Rightarrow> ((checker, w), False)
            | Some d \<Rightarrow>
                (case Query ext (ctx checker) d (''EXPLAIN '' @ Text n) w of
                   (Inl err, w') \<Rightarrow>
                     ((append_advice checker
                         \<lparr>Status = level checker, Code = InsertTooManyRows,
                          Title = title checker,
                          Content = dry_run_failed_content (text' checker) err,
                          Line = line checker\<rparr>, w'), False)
                 | (Inr res, w') \<Rightarrow>
                     (case getInsertRows (fmt_t ext) res of
                        Inl err \<Rightarrow>
                          ((append_advice checker
                              \<lparr>Status = level checker, Code = Internal,
                               Title = title checker,
                               Content = row_count_failed_content (text' checker) err,
                               Line = line checker\<rparr>, w'), False)
                      | Inr rowCount \<Rightarrow>
                          if rowCount > maxRow checker then
                            ((append_advice checker
                                \<lparr>Status = level checker, Code = InsertTooManyRows,
                                 Title = title checker,
                                 Content = inserts_rows_content (text' checker) rowCount
                                             (maxRow checker),
                                 Line = line checker\<rparr>, w'), False)
                          else ((checker, w'), False)))))
      else ((checker, w), False))"

declare Enter.simps [simp del]

text \<open>\<^verbatim>\<open>Leave\<close>: nothing changes; the boolean is \<^verbatim>\<open>ok\<close>.\<close>

definition Leave :: "node \<Rightarrow> 's \<Rightarrow> 's \<times> bool" where
  "Leave n s = (s, True)"

subsection \<open>Check\<close>

text \<open>
  The loop of \<^verbatim>\<open>Check\<close> over the statements: the checker's text and line are set from
  the statement, then the statement accepts the checker; what \<^verbatim>\<open>Accept\<close> returns is dropped.
\<close>

fun Check_loop ::
  "('d, 'c, 'w) externals \<Rightarrow> node list \<Rightarrow> ('d, 'c) insertRowLimitChecker \<times> 'w
    \<Rightarrow> ('d, 'c) insertRowLimitChecker \<times> 'w" where
  "Check_loop ext [] s = s"
| "Check_loop ext (stmt # stmtList) (checker, w) =
     Check_loop ext stmtList
       (fst (Accept (Enter ext) Leave stmt
          (checker\<lparr>text' := Text stmt, line := OriginTextPosition stmt\<rparr>, w)))"

definition ok_advice :: advice where
  "ok_advice = \<lparr>Status = Success, Code = Ok, Title = ''OK'', Content = [], Line = 0\<rparr>"

text \<open>The checker \<^verbatim>\<open>Check\<close> creates, once for the whole script.\<close>

definition new_checker ::
  "status \<Rightarrow> ('d, 'c) advisor_context \<Rightarrow> NumberTypeRulePayload
    \<Rightarrow> ('d, 'c) insertRowLimitChecker" where
  "new_checker lvl c payload =
     \<lparr>adviceList = [], level = lvl, title = Type (Rule c), text' = [], line = 0,
      maxRow = Number payload, driver = Driver c, ctx = Context c\<rparr>"

text \<open>
  \<^verbatim>\<open>InsertRowLimitAdvisor.Check\<close>. \<open>Inl err\<close> is Go's \<^verbatim>\<open>(nil, err)\<close>, \<open>Inr as\<close> is
  \<^verbatim>\<open>(as, nil)\<close>; the second component is the outside world after the call.
\<close>

definition Check ::
  "('d, 'c, 'w) externals \<Rightarrow> ('d, 'c) advisor_context \<Rightarrow> string \<Rightarrow> 'w
    \<Rightarrow> (error + advice list) \<times> 'w" where
  "Check ext c statement w =
     (case parseStatement (parser ext) statement (Charset c) (Collation c) of
        (stmtList, Some errAdvice) \<Rightarrow> (Inr errAdvice, w)
      | (stmtList, None) \<Rightarrow>
          (case NewStatusBySQLReviewRuleLevel ext (Level (Rule c)) of
             Inl err \<Rightarrow> (Inl err, w)
           | Inr lvl \<Rightarrow>
               (case UnmarshalNumberTypeRulePayload ext (Payload (Rule c)) of
                  Inl err \<Rightarrow> (Inl err, w)
                | Inr payload \<Rightarrow>
                    (let checker = new_checker lvl c payload;
                         (checker', w') =
                           (if Number payload > 0 then Check_loop ext stmtList (checker, w)
                            else (checker, w))
                     in (Inr (if length (adviceList checker') = 0
                              then adviceList checker' @ [ok_advice]
                              else adviceList checker'), w')))))"

subsection \<open>The nodes of a tree, in the order of the traversal\<close>

text \<open>
  The nodes a visitor enters when it never skips children and never stops the traversal:
  first the node, then its children from left to right, depth first.
\<close>

fun preorder :: "node \<Rightarrow> node list"
  and preorder_list :: "node list \<Rightarrow> node list"
  and preorder_lists :: "node list list \<Rightarrow> node list"
where
  "preorder (OtherNode t p cs) = OtherNode t p cs # preorder_list cs"
| "preorder (InsertStmt t p sel tbl cols vals setl dup) =
     InsertStmt t p sel tbl cols vals setl dup #
       (case sel of None \<Rightarrow> [] | Some q \<Rightarrow> preorder q) @ preorder tbl @ preorder_list cols
       @ preorder_lists vals @ preorder_list setl @ preorder_list dup"
| "preorder_list [] = []"
| "preorder_list (c # cs) = preorder c @ preorder_list cs"
| "preorder_lists [] = []"
| "preorder_lists (l # ls) = preorder_list l @ preorder_lists ls"

text \<open>The nodes strictly below a node.\<close>

definition descendants :: "node \<Rightarrow> node list" where
  "descendants n = tl (preorder n)"

text \<open>One step of that traversal: the state after \<^verbatim>\<open>Enter\<close> at a node.\<close>

definition visit ::
  "('d, 'c, 'w) externals \<Rightarrow> ('d, 'c) insertRowLimitChecker \<times> 'w \<Rightarrow> node
    \<Rightarrow> ('d, 'c) insertRowLimitChecker \<times> 'w" where
  "visit ext s m = fst (Enter ext m s)"

subsection \<open>Example inputs\<close>

text \<open>
  Two scripts with the trees the parser gives them (only the shape matters: which node is
  the \<^verbatim>\<open>InsertStmt\<close>, its \<open>Lists\<close> and its \<open>Select\<close>), and collaborators to run the
  advisor with. The example parser knows the two scripts and rejects every other text. The
  example handle \<open>0\<close> fails every query, handle \<open>1\<close> returns a result without rows,
  any other handle returns the two-row \<^verbatim>\<open>EXPLAIN\<close> table with an estimate of 5 rows; the
  world counts the queries issued.
\<close>

definition leaf :: node where
  "leaf = OtherNode [] 0 []"

definition values_script :: string where
  "values_script = ''INSERT INTO t(id) VALUES (1),(2),(3)''"

definition values_stmt :: node where
  "values_stmt =
     InsertStmt values_script 1 None (OtherNode [] 0 [leaf]) [leaf]
       [ [leaf], [leaf], [leaf] ] [] []"

definition select_script :: string where
  "select_script = ''INSERT INTO t SELECT * FROM other''"

definition select_stmt :: node where
  "select_stmt =
     InsertStmt select_script 1 (Some (OtherNode [] 0 [leaf, OtherNode [] 0 [leaf]]))
       (OtherNode [] 0 [leaf]) [] [] [] []"

definition example_parser :: "string \<Rightarrow> string \<Rightarrow> string \<Rightarrow> syntax_error + node list" where
  "example_parser statement charset collation =
     (if statement = values_script then Inr [values_stmt]
      else if statement = select_script then Inr [select_stmt]
      else Inl \<lparr>ErrTitle = ''Syntax error'', ErrContent = ''line 1: syntax error'',
                ErrLine = 1\<rparr>)"

definition example_level :: "rule_level \<Rightarrow> error + status" where
  "example_level l =
     (case l of
        LevelError \<Rightarrow> Inr Error
      | LevelWarning \<Rightarrow> Inr Warn
      | _ \<Rightarrow> Inl ''unexpected rule level type'')"

definition example_unmarshal :: "string \<Rightarrow> error + NumberTypeRulePayload" where
  "example_unmarshal payload =
     (case ParseInt payload of
        None \<Rightarrow> Inl ''failed to unmarshal number type rule payload''
      | Some v \<Rightarrow> Inr \<lparr>Number = v\<rparr>)"

definition explain_result :: "iface list" where
  "explain_result =
     [StringSlice [''id'', ''select_type'', ''table'', ''partitions'', ''type'',
        ''possible_keys'', ''key'', ''key_len'', ''ref'', ''rows'', ''filtered'', ''Extra''],
      StringSlice [''BIGINT'', ''VARCHAR'', ''VARCHAR'', ''TEXT'', ''VARCHAR'', ''VARCHAR'',
        ''VARCHAR'', ''VARCHAR'', ''VARCHAR'', ''BIGINT'', ''DOUBLE'', ''VARCHAR''],
      Slice
        [Slice [GoString ''1'', GoString ''INSERT'', GoString ''t'', Nil, GoString ''ALL'',
           Nil, Nil, Nil, Nil, Nil, Nil, Nil],
         Slice [GoString ''1'', GoString ''SIMPLE'', GoString ''other'', Nil, GoString ''ALL'',
           Nil, Nil, Nil, Nil, GoString ''5'', GoString ''100.00'',
           GoString ''Using temporary'']]]"

definition example_Query :: "unit \<Rightarrow> nat \<Rightarrow> string \<Rightarrow> nat \<Rightarrow> (error + iface list) \<times> nat" where
  "example_Query cx d q w =
     (if d = 0 then (Inl ''context canceled'', w + 1)
      else if d = 1 then (Inr [StringSlice [], StringSlice [], Slice []], w + 1)
      else (Inr explain_result, w + 1))"

definition example_ext :: "(nat, unit, nat) externals" where
  "example_ext =
     \<lparr>parser = example_parser, NewStatusBySQLReviewRuleLevel = example_level,
      UnmarshalNumberTypeRulePayload = example_unmarshal, Query = example_Query,
      fmt_t = (\<lambda>v. ''%!t(?)'')\<rparr>"

definition example_context :: "rule_level \<Rightarrow> string \<Rightarrow> nat option \<Rightarrow> (nat, unit) advisor_context" where
  "example_context l payload d =
     \<lparr>Rule = \<lparr>Type = ''statement.insert.row-limit'', Level = l, Payload = payload\<rparr>,
      Charset = ''utf8mb4'', Collation = ''utf8mb4_general_ci'', Driver = d, Context = ()\<rparr>"

text \<open>
  A second outside world, to compare runs: its state is a boolean that every query flips,
  every query is refused, and \<^verbatim>\<open>%t\<close> is rendered differently.
\<close>

definition other_Query :: "unit \<Rightarrow> nat \<Rightarrow> string \<Rightarrow> bool \<Rightarrow> (error + iface list) \<times> bool" where
  "other_Query cx d q w = (Inl ''connection refused'', \<not> w)"

definition other_ext :: "(nat, unit, bool) externals" where
  "other_ext =
     \<lparr>parser = example_parser, NewStatusBySQLReviewRuleLevel = example_level,
      UnmarshalNumberTypeRulePayload = example_unmarshal, Query = other_Query,
      fmt_t = (\<lambda>v. ''?'')\<rparr>"

section \<open>Properties\<close>

subsection \<open>The traversal enters every node\<close>

lemma Enter_no_skip: "snd (Enter ext n s) = False"
  by (cases s) (auto simp: Enter.simps split: option.splits sum.splits prod.splits)

text \<open>
  A visitor that never skips children and whose \<^verbatim>\<open>Leave\<close> always returns
  \<^verbatim>\<open>ok = true\<close> enters the nodes of the tree one after the other.
\<close>

lemma Accept_preorder_aux:
  fixes enter :: "node \<Rightarrow> 's \<Rightarrow> 's \<times> bool"
  assumes ns: "\<And>m s. snd (enter m s) = False"
  shows "Accept enter Leave n s = (foldl (\<lambda>s m. fst (enter m s)) s (preorder n), True)"
    and "AcceptList enter Leave cs s =
           (foldl (\<lambda>s m. fst (enter m s)) s (preorder_list cs), True)"
    and "AcceptLists enter Leave css s =
           (foldl (\<lambda>s m. fst (enter m s)) s (preorder_lists css), True)"
proof (induction n and cs and css arbitrary: s and s and s
       rule: preorder_preorder_list_preorder_lists.induct)
  case (1 t p cs)
  obtain s1 where e: "enter (OtherNode t p cs) s = (s1, False)"
    using ns [of "OtherNode t p cs" s] by (cases "enter (OtherNode t p cs) s") auto
  show ?case using 1 [of s1] e by (simp add: Leave_def)
next
  case (2 t p sel tbl cols vals setl dup)
  obtain s1 where e: "enter (InsertStmt t p sel tbl cols vals setl dup) s = (s1, False)"
    using ns [of "InsertStmt t p sel tbl cols vals setl dup" s]
    by (cases "enter (InsertStmt t p sel tbl cols vals setl dup) s") auto
  show ?case using 2 e by (simp add: Leave_def split: option.splits)
qed (simp_all)

lemma Accept_Enter: "Accept (Enter ext) Leave n s = (foldl (visit ext) s (preorder n), True)"
proof -
  have "(\<lambda>s m. fst (Enter ext m s)) = visit ext"
    by (intro ext) (simp add: visit_def)
  then show ?thesis
    using Accept_preorder_aux(1) [of "Enter ext" n s] by (simp add: Enter_no_skip)
qed

lemma Check_loop_Cons:
  "Check_loop ext (stmt # stmtList) (c, w) =
     Check_loop ext stmtList
       (foldl (visit ext) (c\<lparr>text' := Text stmt, line := OriginTextPosition stmt\<rparr>, w)
          (preorder stmt))"
  by (simp add: Accept_Enter)

lemma preorder_hd: "preorder n = n # descendants n"
  by (cases n) (simp_all add: descendants_def)

lemma visit_other: "\<not> is_InsertStmt m \<Longrightarrow> visit ext s m = s"
  by (cases s) (simp add: visit_def Enter.simps)

lemma visit_select_no_handle:
  "Select m \<noteq> None \<Longrightarrow> driver c = None \<Longrightarrow> visit ext (c, w) m = (c, w)"
  by (auto simp: visit_def Enter.simps)

lemma foldl_visit_others:
  "\<forall>m \<in> set ms. \<not> is_InsertStmt m \<Longrightarrow> foldl (visit ext) s ms = s"
  by (induction ms) (simp_all add: visit_other)

lemma foldl_visit_no_handle:
  "\<forall>m \<in> set ms. is_InsertStmt m \<longrightarrow> Select m \<noteq> None \<Longrightarrow> driver c = None \<Longrightarrow>
   foldl (visit ext) (c, w) ms = (c, w)"
proof (induction ms)
  case Nil
  show ?case by simp
next
  case (Cons m ms)
  have "visit ext (c, w) m = (c, w)"
  proof (cases "is_InsertStmt m")
    case True
    with Cons.prems show ?thesis by (simp add: visit_select_no_handle)
  next
    case False
    then show ?thesis by (rule visit_other)
  qed
  with Cons show ?case by simp
qed

lemma Check_loop_no_handle:
  "\<forall>stmt \<in> set stmtList. \<forall>m \<in> set (preorder stmt). is_InsertStmt m \<longrightarrow> Select m \<noteq> None \<Longrightarrow>
   driver c = None \<Longrightarrow>
   \<exists>t l. Check_loop ext stmtList (c, w) = (c\<lparr>text' := t, line := l\<rparr>, w)"
proof (induction stmtList arbitrary: c)
  case Nil
  have "c = c\<lparr>text' := text' c, line := line c\<rparr>" by simp
  then show ?case by (metis Check_loop.simps(1))
next
  case (Cons stmt stmtList)
  let ?c = "c\<lparr>text' := Text stmt, line := OriginTextPosition stmt\<rparr>"
  have "foldl (visit ext) (?c, w) (preorder stmt) = (?c, w)"
    using Cons.prems by (intro foldl_visit_no_handle) simp_all
  moreover obtain t l where "Check_loop ext stmtList (?c, w) = (?c\<lparr>text' := t, line := l\<rparr>, w)"
    using Cons.IH [of ?c] Cons.prems by auto
  ultimately show ?case unfolding Check_loop_Cons by auto
qed

subsection \<open>The parser adapter and the examples\<close>

lemma parse_ok:
  "p statement cs col = Inr stmtList \<Longrightarrow> parseStatement p statement cs col = (stmtList, None)"
  by (simp add: parseStatement_def)

lemma parse_failed:
  "p statement cs col = Inl e \<Longrightarrow>
   parseStatement p statement cs col =
     ([], Some [\<lparr>Status = Error, Code = Syntax, Title = ErrTitle e, Content = ErrContent e,
                 Line = ErrLine e\<rparr>])"
  by (simp add: parseStatement_def)

lemmas example_defs =
  example_ext_def example_context_def example_parser_def example_level_def
  example_unmarshal_def values_script_def select_script_def

lemma ParseInt_2: "ParseInt ''2'' = Some 2"
  by (simp add: ParseInt_def digit_of_def)

lemma ParseInt_0: "ParseInt ''0'' = Some 0"
  by (simp add: ParseInt_def digit_of_def)

lemma ParseInt_5: "ParseInt ''5'' = Some 5"
  by (simp add: ParseInt_def digit_of_def)

lemma ParseInt_two: "ParseInt ''two'' = None"
  by (simp add: ParseInt_def digit_of_def)

lemma values_stmt_shape:
  "is_InsertStmt values_stmt" "Select values_stmt = None" "length (Lists values_stmt) = 3"
  "Text values_stmt = ''INSERT INTO t(id) VALUES (1),(2),(3)''"
  "OriginTextPosition values_stmt = 1"
  "\<forall>m \<in> set (descendants values_stmt). \<not> is_InsertStmt m"
  by (simp_all add: values_stmt_def values_script_def descendants_def leaf_def)

lemma preorder_values_stmt: "length (preorder values_stmt) = 7"
  by (simp add: values_stmt_def leaf_def)

lemma select_stmt_shape:
  "\<forall>m \<in> set (preorder select_stmt). is_InsertStmt m \<longrightarrow> Select m \<noteq> None"
  by (simp add: select_stmt_def leaf_def)


lemma values_content:
  "inserts_rows_content ''INSERT INTO t(id) VALUES (1),(2),(3)'' 3 2 =
     [dquote] @ ''INSERT INTO t(id) VALUES (1),(2),(3)'' @ [dquote]
       @ '' inserts 3 rows. The count exceeds 2.''"
  by code_simp

lemma length3: "length res = 3 \<longleftrightarrow> (\<exists>a b c. res = [a, b, c])"
  by (auto simp: length_Suc_conv numeral_3_eq_3)

lemma ParseInt_range: "ParseInt s = Some n \<Longrightarrow> - (2 ^ 63) \<le> n \<and> n < 2 ^ 63"
  by (auto simp: ParseInt_def Let_def split: list.splits option.splits if_splits)

subsection \<open>Without a handle the outside world plays no part\<close>

lemma Enter_no_handle_indep:
  fixes ext :: "('d, 'c, 'w) externals" and ext2 :: "('d, 'c, 'v) externals"
  assumes "driver c = None"
  shows "\<exists>c'. driver c' = None \<and> Enter ext n (c, w) = ((c', w), False)
              \<and> Enter ext2 n (c, w2) = ((c', w2), False)"
  using assms by (auto simp: Enter.simps append_advice_def)

lemma foldl_visit_indep:
  fixes ext :: "('d, 'c, 'w) externals" and ext2 :: "('d, 'c, 'v) externals"
  shows "driver c = None \<Longrightarrow>
    \<exists>c'. driver c' = None \<and> foldl (visit ext) (c, w) ms = (c', w)
          \<and> foldl (visit ext2) (c, w2) ms = (c', w2)"
proof (induction ms arbitrary: c)
  case Nil
  then show ?case by simp
next
  case (Cons m ms)
  obtain c1 where c1: "driver c1 = None" "Enter ext m (c, w) = ((c1, w), False)"
      "Enter ext2 m (c, w2) = ((c1, w2), False)"
    using Enter_no_handle_indep [OF Cons.prems, of ext m w ext2 w2] by blast
  from Cons.IH [OF c1(1)] c1(2,3) show ?case by (simp add: visit_def)
qed

lemma Check_loop_indep:
  fixes ext :: "('d, 'c, 'w) externals" and ext2 :: "('d, 'c, 'v) externals"
  shows "driver c = None \<Longrightarrow>
    \<exists>c'. driver c' = None \<and> Check_loop ext stmtList (c, w) = (c', w)
          \<and> Check_loop ext2 stmtList (c, w2) = (c', w2)"
proof (induction stmtList arbitrary: c)
  case Nil
  then show ?case by simp
next
  case (Cons stmt stmtList)
  let ?c = "c\<lparr>text' := Text stmt, line := OriginTextPosition stmt\<rparr>"
  have "driver ?c = None" using Cons.prems by simp
  then obtain c1 where c1: "driver c1 = None"
      "foldl (visit ext) (?c, w) (preorder stmt) = (c1, w)"
      "foldl (visit ext2) (?c, w2) (preorder stmt) = (c1, w2)"
    using foldl_visit_indep [of ?c ext w "preorder stmt" ext2 w2] by blast
  from Cons.IH [OF c1(1)] c1(2,3) show ?case unfolding Check_loop_Cons by simp
qed

subsection \<open>At least one Advice\<close>

text \<open>
  Claim C1. Whenever \<^verbatim>\<open>Check\<close> returns an Advice list (no engine-level error), the list
  has at least one entry; and when the script parsed, the level and the payload were accepted
  and the traversal of all statements appended nothing, the list is exactly the one
  synthetic Advice with status Success, code Ok, title "OK" and empty content.
\<close>

theorem Check_at_least_one_advice:
  "fst (Check ext c statement w) = Inr advs \<Longrightarrow>
     1 \<le> length advs \<and>
     (\<forall>stmtList lvl payload.
        parser ext statement (Charset c) (Collation c) = Inr stmtList \<and>
        NewStatusBySQLReviewRuleLevel ext (Level (Rule c)) = Inr lvl \<and>
        UnmarshalNumberTypeRulePayload ext (Payload (Rule c)) = Inr payload \<and>
        adviceList (fst (if Number payload > 0
                         then Check_loop ext stmtList (new_checker lvl c payload, w)
                         else (new_checker lvl c payload, w))) = []
        \<longrightarrow> advs = [\<lparr>Status = Success, Code = Ok, Title = ''OK'', Content = [], Line = 0\<rparr>])"
  by (cases "parser ext statement (Charset c) (Collation c)")
     (auto simp: Check_def parse_ok parse_failed ok_advice_def Let_def Suc_le_eq
           split: sum.splits prod.splits if_splits)

theorem Check_at_least_one_advice_witness:
  "fst (Check example_ext (example_context LevelWarning ''5'' None)
          ''INSERT INTO t(id) VALUES (1),(2),(3)'' 0)
     = Inr [ok_advice]
   \<and> 1 \<le> length [ok_advice]"
proof -
  have h: "fst (Check example_ext (example_context LevelWarning ''5'' None)
             ''INSERT INTO t(id) VALUES (1),(2),(3)'' 0) = Inr [ok_advice]"
    by (simp add: Check_def parseStatement_def example_defs ParseInt_5 new_checker_def
          values_stmt_def leaf_def Enter.simps Leave_def)
  from Check_at_least_one_advice [OF h] have "1 \<le> length [ok_advice]" by blast
  with h show ?thesis by simp
qed

subsection \<open>Syntax failure\<close>

text \<open>
  Claim C2. When the script fails to parse, \<^verbatim>\<open>Check\<close> returns exactly the parser
  adapter's single Advice (status Error, code Syntax, with the line the parser reported) and
  leaves the outside world as it was: the result does not depend on the rule's level or
  payload, on the handle or on the diagnostic query, so no rule logic has run.
\<close>

theorem Check_syntax_failure:
  "parser ext statement (Charset c) (Collation c) = Inl e \<Longrightarrow>
   Check ext c statement w =
     (Inr [\<lparr>Status = Error, Code = Syntax, Title = ErrTitle e, Content = ErrContent e,
            Line = ErrLine e\<rparr>], w)"
  by (simp add: Check_def parse_failed)

theorem Check_syntax_failure_witness:
  "example_parser ''INSERT INTO'' ''utf8mb4'' ''utf8mb4_general_ci'' =
     Inl \<lparr>ErrTitle = ''Syntax error'', ErrContent = ''line 1: syntax error'', ErrLine = 1\<rparr>
   \<and> Check example_ext (example_context LevelDisabled ''two'' (Some 2)) ''INSERT INTO'' 0 =
     (Inr [\<lparr>Status = Error, Code = Syntax, Title = ''Syntax error'',
            Content = ''line 1: syntax error'', Line = 1\<rparr>], 0)"
  using Check_syntax_failure
          [of example_ext "''INSERT INTO''" "example_context LevelDisabled ''two'' (Some 2)"
              "\<lparr>ErrTitle = ''Syntax error'', ErrContent = ''line 1: syntax error'',
                ErrLine = 1\<rparr>" 0]
  by (simp add: example_defs)

subsection \<open>Failures of the dynamic check\<close>





subsection \<open>Three rows against a threshold of two\<close>

text \<open>
  Claim C4. For the script \<^verbatim>\<open>INSERT INTO t(id) VALUES (1),(2),(3)\<close>, which the parser
  turns into one \<^verbatim>\<open>InsertStmt\<close> on line 1 with three value lists and no \<^verbatim>\<open>SELECT\<close>,
  a rule of level Warning (mapped to the status Warning) and threshold 2 makes \<^verbatim>\<open>Check\<close>
  return exactly one Advice: status Warning, code InsertTooManyRows, line 1, and a content
  that cites 3 rows and the threshold 2.
\<close>

theorem Check_three_rows_threshold_two:
  assumes p: "parser ext ''INSERT INTO t(id) VALUES (1),(2),(3)'' (Charset c) (Collation c)
                = Inr [stmt]"
    and st: "is_InsertStmt stmt" "Select stmt = None" "length (Lists stmt) = 3"
      "Text stmt = ''INSERT INTO t(id) VALUES (1),(2),(3)''" "OriginTextPosition stmt = 1"
      "\<forall>m \<in> set (descendants stmt). \<not> is_InsertStmt m"
    and l: "Level (Rule c) = LevelWarning"
      "NewStatusBySQLReviewRuleLevel ext LevelWarning = Inr Warn"
    and u: "UnmarshalNumberTypeRulePayload ext (Payload (Rule c)) = Inr payload"
      "Number payload = 2"
  shows "Check ext c ''INSERT INTO t(id) VALUES (1),(2),(3)'' w =
     (Inr [\<lparr>Status = Warn, Code = InsertTooManyRows, Title = Type (Rule c),
            Content = [dquote] @ ''INSERT INTO t(id) VALUES (1),(2),(3)'' @ [dquote]
                        @ '' inserts 3 rows. The count exceeds 2.'',
            Line = 1\<rparr>], w)"
proof -
  let ?c = "(new_checker Warn c payload)\<lparr>text' := Text stmt, line := OriginTextPosition stmt\<rparr>"
  let ?a = "\<lparr>Status = Warn, Code = InsertTooManyRows, Title = Type (Rule c),
            Content = inserts_rows_content ''INSERT INTO t(id) VALUES (1),(2),(3)'' 3 2,
            Line = 1\<rparr>"
  have "visit ext (?c, w) stmt = (append_advice ?c ?a, w)"
    using st u by (simp add: visit_def Enter.simps new_checker_def)
  then have "foldl (visit ext) (?c, w) (preorder stmt) = (append_advice ?c ?a, w)"
    using st(6) by (simp add: preorder_hd foldl_visit_others)
  then have "Check_loop ext [stmt] (new_checker Warn c payload, w) = (append_advice ?c ?a, w)"
    by (simp only: Check_loop_Cons Check_loop.simps)
  moreover have "adviceList (append_advice ?c ?a) = [?a]"
    by (simp add: append_advice_def new_checker_def)
  ultimately show ?thesis
    using p l u by (simp add: Check_def parse_ok values_content)
qed

theorem Check_three_rows_threshold_two_witness:
  "example_parser ''INSERT INTO t(id) VALUES (1),(2),(3)'' ''utf8mb4'' ''utf8mb4_general_ci''
     = Inr [values_stmt]
   \<and> example_level LevelWarning = Inr Warn
   \<and> example_unmarshal ''2'' = Inr \<lparr>Number = 2\<rparr>
   \<and> Check example_ext (example_context LevelWarning ''2'' None)
        ''INSERT INTO t(id) VALUES (1),(2),(3)'' 0 =
     (Inr [\<lparr>Status = Warn, Code = InsertTooManyRows, Title = ''statement.insert.row-limit'',
            Content = [dquote] @ ''INSERT INTO t(id) VALUES (1),(2),(3)'' @ [dquote]
                        @ '' inserts 3 rows. The count exceeds 2.'',
            Line = 1\<rparr>], 0)"
  using Check_three_rows_threshold_two
          [of example_ext "example_context LevelWarning ''2'' None" values_stmt
              "\<lparr>Number = 2\<rparr>" 0]
  by (simp add: example_defs values_stmt_shape ParseInt_2)

subsection \<open>No live handle\<close>

text \<open>
  Claim C5. At an \<^verbatim>\<open>INSERT ... SELECT\<close> statement, a checker without a live database
  handle appends no Advice (and issues no query). Hence, without a handle, a script in which
  every \<^verbatim>\<open>InsertStmt\<close> node has a \<^verbatim>\<open>SELECT\<close> yields zero findings: only the synthesized
  Success Advice is returned. \<^verbatim>\<open>INSERT INTO t SELECT * FROM other\<close> is such a script.
\<close>

theorem no_handle_no_finding:
  "(is_InsertStmt n \<and> Select n \<noteq> None \<and> driver checker = None
      \<longrightarrow> Enter ext n (checker, w) = ((checker, w), False))
   \<and> (parser ext statement (Charset c) (Collation c) = Inr stmtList
      \<and> NewStatusBySQLReviewRuleLevel ext (Level (Rule c)) = Inr lvl
      \<and> UnmarshalNumberTypeRulePayload ext (Payload (Rule c)) = Inr payload
      \<and> Driver c = None
      \<and> (\<forall>stmt \<in> set stmtList. \<forall>m \<in> set (preorder stmt).
             is_InsertStmt m \<longrightarrow> Select m \<noteq> None)
      \<longrightarrow> Check ext c statement w =
            (Inr [\<lparr>Status = Success, Code = Ok, Title = ''OK'', Content = [], Line = 0\<rparr>], w))"
proof (intro conjI impI)
  assume "is_InsertStmt n \<and> Select n \<noteq> None \<and> driver checker = None"
  then show "Enter ext n (checker, w) = ((checker, w), False)"
    by (auto simp: Enter.simps)
next
  assume a: "parser ext statement (Charset c) (Collation c) = Inr stmtList
      \<and> NewStatusBySQLReviewRuleLevel ext (Level (Rule c)) = Inr lvl
      \<and> UnmarshalNumberTypeRulePayload ext (Payload (Rule c)) = Inr payload
      \<and> Driver c = None
      \<and> (\<forall>stmt \<in> set stmtList. \<forall>m \<in> set (preorder stmt).
             is_InsertStmt m \<longrightarrow> Select m \<noteq> None)"
  let ?c = "new_checker lvl c payload"
  have d: "driver ?c = None" and al: "adviceList ?c = []"
    using a by (simp_all add: new_checker_def)
  obtain t l where "Check_loop ext stmtList (?c, w) = (?c\<lparr>text' := t, line := l\<rparr>, w)"
    using Check_loop_no_handle [OF _ d, of stmtList ext w] a by blast
  then show "Check ext c statement w =
            (Inr [\<lparr>Status = Success, Code = Ok, Title = ''OK'', Content = [], Line = 0\<rparr>], w)"
    using a al by (auto simp: Check_def parse_ok ok_advice_def Let_def)
qed

theorem no_handle_no_finding_witness:
  "is_InsertStmt select_stmt \<and> Select select_stmt \<noteq> None
   \<and> Enter example_ext select_stmt
        (new_checker Warn (example_context LevelWarning ''2'' None) \<lparr>Number = 2\<rparr>, 0)
     = ((new_checker Warn (example_context LevelWarning ''2'' None) \<lparr>Number = 2\<rparr>, 0), False)
   \<and> Check example_ext (example_context LevelWarning ''2'' None)
        ''INSERT INTO t SELECT * FROM other'' 0 =
     (Inr [\<lparr>Status = Success, Code = Ok, Title = ''OK'', Content = [], Line = 0\<rparr>], 0)"
  using no_handle_no_finding
          [of select_stmt
              "new_checker Warn (example_context LevelWarning ''2'' None) \<lparr>Number = 2\<rparr>"
              example_ext 0 "''INSERT INTO t SELECT * FROM other''"
              "example_context LevelWarning ''2'' None" "[select_stmt]" Warn "\<lparr>Number = 2\<rparr>"]
        select_stmt_shape
  by (simp add: example_defs ParseInt_2 new_checker_def select_stmt_def)

subsection \<open>The visitor never skips children\<close>

text \<open>
  Claim C6, as the code has it. \<^verbatim>\<open>Enter\<close> returns \<^verbatim>\<open>skipChildren = false\<close> at every
  node, matched or not: it never signals "do not descend", and the traversal of a statement
  enters every node of its tree, depth first. Each call of \<^verbatim>\<open>Enter\<close> appends at most one
  Advice, and none at a node that is not an \<^verbatim>\<open>InsertStmt\<close>: at most one finding is
  recorded per \<^verbatim>\<open>InsertStmt\<close> node entered.
\<close>

theorem Enter_never_skips:
  "snd (Enter ext n (checker, w)) = False
   \<and> (\<exists>extra. adviceList (fst (fst (Enter ext n (checker, w)))) = adviceList checker @ extra
               \<and> length extra \<le> 1
               \<and> (\<not> is_InsertStmt n \<longrightarrow> extra = []))
   \<and> Accept (Enter ext) Leave n (checker, w) =
       (foldl (\<lambda>s m. fst (Enter ext m s)) (checker, w) (preorder n), True)"
proof (intro conjI)
  show "snd (Enter ext n (checker, w)) = False"
    by (rule Enter_no_skip)
  show "\<exists>extra. adviceList (fst (fst (Enter ext n (checker, w)))) = adviceList checker @ extra
               \<and> length extra \<le> 1 \<and> (\<not> is_InsertStmt n \<longrightarrow> extra = [])"
    by (auto simp: Enter.simps append_advice_def split: option.splits sum.splits prod.splits)
  show "Accept (Enter ext) Leave n (checker, w) =
       (foldl (\<lambda>s m. fst (Enter ext m s)) (checker, w) (preorder n), True)"
    using Accept_preorder_aux(1) [of "Enter ext" n "(checker, w)"] by (simp add: Enter_no_skip)
qed

theorem Enter_never_skips_witness:
  "snd (Enter example_ext values_stmt
          (new_checker Warn (example_context LevelWarning ''2'' None) \<lparr>Number = 2\<rparr>, 0)) = False
   \<and> length (preorder values_stmt) = 7
   \<and> Accept (Enter example_ext) Leave values_stmt
        (new_checker Warn (example_context LevelWarning ''2'' None) \<lparr>Number = 2\<rparr>, 0) =
       (foldl (\<lambda>s m. fst (Enter example_ext m s))
          (new_checker Warn (example_context LevelWarning ''2'' None) \<lparr>Number = 2\<rparr>, 0)
          (preorder values_stmt), True)"
  using Enter_never_skips
          [of example_ext values_stmt
              "new_checker Warn (example_context LevelWarning ''2'' None) \<lparr>Number = 2\<rparr>" 0]
        preorder_values_stmt
  by simp

text \<open>
  The claim as stated fails: at an \<^verbatim>\<open>InsertStmt\<close> with three rows and a threshold of 2,
  \<^verbatim>\<open>Enter\<close> records its finding and still returns \<^verbatim>\<open>skipChildren = false\<close>.
\<close>

theorem do_not_descend_counterexample:
  "is_InsertStmt values_stmt
   \<and> length (adviceList (fst (fst (Enter example_ext values_stmt
        (new_checker Warn (example_context LevelWarning ''2'' None) \<lparr>Number = 2\<rparr>, 0))))) = 1
   \<and> snd (Enter example_ext values_stmt
        (new_checker Warn (example_context LevelWarning ''2'' None) \<lparr>Number = 2\<rparr>, 0)) = False"
  by (simp add: Enter.simps values_stmt_def new_checker_def append_advice_def)

subsection \<open>Malformed payload\<close>

text \<open>
  Claim C7, as the code has it. \<^verbatim>\<open>Check\<close> parses the script first. When the script
  parses and the payload cannot be decoded, \<^verbatim>\<open>Check\<close> returns an error and no Advice
  list: the decoder's error, or the error of the level mapping, which is consulted before
  the payload. (When the script does not parse, the Syntax Advice is returned and the payload
  is never looked at: see the counterexample.)
\<close>

theorem Check_malformed_payload:
  "parser ext statement (Charset c) (Collation c) = Inr stmtList \<Longrightarrow>
   UnmarshalNumberTypeRulePayload ext (Payload (Rule c)) = Inl err \<Longrightarrow>
   Check ext c statement w =
     (Inl (case NewStatusBySQLReviewRuleLevel ext (Level (Rule c)) of
             Inl lerr \<Rightarrow> lerr | Inr lvl \<Rightarrow> err), w)"
  by (simp add: Check_def parse_ok split: sum.splits)

theorem Check_malformed_payload_witness:
  "example_unmarshal ''two'' = Inl ''failed to unmarshal number type rule payload''
   \<and> Check example_ext (example_context LevelWarning ''two'' None)
        ''INSERT INTO t(id) VALUES (1),(2),(3)'' 0 =
     (Inl ''failed to unmarshal number type rule payload'', 0)"
  using Check_malformed_payload
          [of example_ext "''INSERT INTO t(id) VALUES (1),(2),(3)''"
              "example_context LevelWarning ''two'' None" "[values_stmt]"
              "''failed to unmarshal number type rule payload''" 0]
  by (simp add: example_defs ParseInt_two)

text \<open>
  The claim as stated fails for a script that does not parse: the payload \<^verbatim>\<open>two\<close> cannot
  be decoded, and yet \<^verbatim>\<open>Check\<close> returns an Advice list and no error.
\<close>

theorem malformed_payload_counterexample:
  "UnmarshalNumberTypeRulePayload example_ext
      (Payload (Rule (example_context LevelWarning ''two'' None)))
     = Inl ''failed to unmarshal number type rule payload''
   \<and> Check example_ext (example_context LevelWarning ''two'' None) ''INSERT INTO'' 0 =
     (Inr [\<lparr>Status = Error, Code = Syntax, Title = ''Syntax error'',
            Content = ''line 1: syntax error'', Line = 1\<rparr>], 0)"
  by (simp add: Check_def parseStatement_def example_defs ParseInt_two)

subsection \<open>Decoding the diagnostic result\<close>

text \<open>
  Claim C8. \<^verbatim>\<open>getInsertRows\<close> returns a count exactly when the result has three elements,
  the third is a row list with at least two rows, the second row is a list of exactly twelve
  columns, and column 9 of it is an \<^verbatim>\<open>int\<close>, an \<^verbatim>\<open>int64\<close>, or a string that
  \<^verbatim>\<open>ParseInt\<close> reads as a decimal numeral; the count is that number. In every other case
  it returns an error. A count read from a string lies in the 64-bit range.
\<close>

theorem getInsertRows_positional:
  "(getInsertRows fmtT res = Inr n \<longleftrightarrow>
     (\<exists>a b rowList rowTwo.
        res = [a, b, Slice rowList] \<and> 2 \<le> length rowList \<and> rowList ! 1 = Slice rowTwo
        \<and> length rowTwo = 12
        \<and> (rowTwo ! 9 = GoInt n \<or> rowTwo ! 9 = GoInt64 n
            \<or> (\<exists>s. rowTwo ! 9 = GoString s \<and> ParseInt s = Some n))))
   \<and> ((\<exists>e. getInsertRows fmtT res = Inl e) \<or> (\<exists>k. getInsertRows fmtT res = Inr k))
   \<and> (ParseInt s = Some n \<longrightarrow> - (2 ^ 63) \<le> n \<and> n < 2 ^ 63)"
proof (intro conjI)
  show "getInsertRows fmtT res = Inr n \<longleftrightarrow>
     (\<exists>a b rowList rowTwo.
        res = [a, b, Slice rowList] \<and> 2 \<le> length rowList \<and> rowList ! 1 = Slice rowTwo
        \<and> length rowTwo = 12
        \<and> (rowTwo ! 9 = GoInt n \<or> rowTwo ! 9 = GoInt64 n
            \<or> (\<exists>s. rowTwo ! 9 = GoString s \<and> ParseInt s = Some n)))"
    unfolding getInsertRows_def
    by (auto simp: length3 split: iface.splits option.splits)
  show "(\<exists>e. getInsertRows fmtT res = Inl e) \<or> (\<exists>k. getInsertRows fmtT res = Inr k)"
    by (cases "getInsertRows fmtT res") auto
  show "ParseInt s = Some n \<longrightarrow> - (2 ^ 63) \<le> n \<and> n < 2 ^ 63"
    using ParseInt_range by blast
qed

theorem getInsertRows_positional_witness:
  "getInsertRows (fmt_t example_ext) explain_result = Inr 5"
  using getInsertRows_positional [of "fmt_t example_ext" explain_result 5 "''5''"]
  by (simp add: explain_result_def ParseInt_5)

subsection \<open>Determinism without a handle\<close>

text \<open>
  Claim C9. With no live database handle in the context, two runs of \<^verbatim>\<open>Check\<close> on the
  same script, rule, charset and collation return the same result (the same Advice list, or
  the same error), whatever the state of the outside world is in each run and however the
  diagnostic query and the message rendering would behave; and neither run touches the
  outside world. The parser, the level mapping and the payload decoder are functions of
  their arguments, the same in both runs.
\<close>

theorem Check_deterministic_without_handle:
  fixes ext :: "('d, 'c, 'w) externals" and ext2 :: "('d, 'c, 'v) externals"
  assumes "Driver c = None"
    and "parser ext2 = parser ext"
    and "NewStatusBySQLReviewRuleLevel ext2 = NewStatusBySQLReviewRuleLevel ext"
    and "UnmarshalNumberTypeRulePayload ext2 = UnmarshalNumberTypeRulePayload ext"
  shows "fst (Check ext2 c statement w2) = fst (Check ext c statement w)
         \<and> snd (Check ext c statement w) = w \<and> snd (Check ext2 c statement w2) = w2"
proof (cases "parseStatement (parser ext) statement (Charset c) (Collation c)")
  case (Pair stmtList errAdvice)
  show ?thesis
  proof (cases errAdvice)
    case (Some a)
    with Pair assms show ?thesis by (simp add: Check_def)
  next
    case None
    show ?thesis
    proof (cases "NewStatusBySQLReviewRuleLevel ext (Level (Rule c))")
      case (Inl e)
      with Pair None assms show ?thesis by (simp add: Check_def)
    next
      case (Inr lvl)
      show ?thesis
      proof (cases "UnmarshalNumberTypeRulePayload ext (Payload (Rule c))")
        case (Inl e)
        with Pair None Inr assms show ?thesis by (simp add: Check_def)
      next
        case pl: (Inr payload)
        have "driver (new_checker lvl c payload) = None"
          using assms(1) by (simp add: new_checker_def)
        then obtain c1 where
          "Check_loop ext stmtList (new_checker lvl c payload, w) = (c1, w)"
          "Check_loop ext2 stmtList (new_checker lvl c payload, w2) = (c1, w2)"
          using Check_loop_indep [of "new_checker lvl c payload" ext stmtList w ext2 w2] by blast
        with Pair None Inr pl assms show ?thesis by (simp add: Check_def Let_def)
      qed
    qed
  qed
qed

theorem Check_deterministic_without_handle_witness:
  "Driver (example_context LevelWarning ''2'' None) = None
   \<and> fst (Check other_ext (example_context LevelWarning ''2'' None)
            ''INSERT INTO t(id) VALUES (1),(2),(3)'' True)
     = fst (Check example_ext (example_context LevelWarning ''2'' None)
            ''INSERT INTO t(id) VALUES (1),(2),(3)'' 0)"
  using Check_deterministic_without_handle
          [of "example_context LevelWarning ''2'' None" other_ext example_ext
              "''INSERT INTO t(id) VALUES (1),(2),(3)''" True 0]
  by (simp add: other_ext_def example_ext_def example_context_def)

subsection \<open>A threshold that is not positive\<close>

text \<open>
  Claim C10. When the script parses and the rule is active (its level maps to a status) with
  a threshold that is zero or negative, \<^verbatim>\<open>Check\<close> traverses no statement: whatever the
  statements are, it returns exactly the synthesized Success Advice and leaves the outside
  world untouched.
\<close>

theorem Check_nonpositive_threshold:
  "parser ext statement (Charset c) (Collation c) = Inr stmtList \<Longrightarrow>
   NewStatusBySQLReviewRuleLevel ext (Level (Rule c)) = Inr lvl \<Longrightarrow>
   UnmarshalNumberTypeRulePayload ext (Payload (Rule c)) = Inr payload \<Longrightarrow>
   Number payload \<le> 0 \<Longrightarrow>
   Check ext c statement w =
     (Inr [\<lparr>Status = Success, Code = Ok, Title = ''OK'', Content = [], Line = 0\<rparr>], w)"
  by (simp add: Check_def parse_ok ok_advice_def new_checker_def)

theorem Check_nonpositive_threshold_witness:
  "example_unmarshal ''0'' = Inr \<lparr>Number = 0\<rparr>
   \<and> Check example_ext (example_context LevelWarning ''0'' (Some 2))
        ''INSERT INTO t(id) VALUES (1),(2),(3)'' 0 =
     (Inr [\<lparr>Status = Success, Code = Ok, Title = ''OK'', Content = [], Line = 0\<rparr>], 0)"
  using Check_nonpositive_threshold
          [of example_ext "''INSERT INTO t(id) VALUES (1),(2),(3)''"
              "example_context LevelWarning ''0'' (Some 2)" "[values_stmt]" Warn
              "\<lparr>Number = 0\<rparr>" 0]
  by (simp add: example_defs ParseInt_0)

end
